theory Spec2Isabelle
  imports Complex_Main "HOL-Library.Sublist"
begin

section \<open>Solar pipeline: the model client and its simulated response\<close>

text \<open>
  Source: \<^verbatim>\<open>backend/Solar System/Gemini_API_Client.py\<close>.
  Python strings are modelled as \<^typ>\<open>string\<close>, Python's unbounded integers as
  \<^typ>\<open>int\<close>. The texts of this file are ASCII, so one \<^typ>\<open>char\<close> is one code point.
\<close>

subsection \<open>Rendering and reading decimal integers\<close>

definition digit_char :: "nat \<Rightarrow> char" where
  "digit_char d = ''0123456789'' ! (d mod 10)"

fun nat_digits :: "nat \<Rightarrow> string" where
  "nat_digits n = (if n < 10 then [digit_char n] else nat_digits (n div 10) @ [digit_char (n mod 10)])"

declare nat_digits.simps [simp del]

definition str_int :: "int \<Rightarrow> string" where
  \<comment> \<open>what an f-string writes for an \<open>int\<close>\<close>
  "str_int i = (if i < 0 then CHR ''-'' # nat_digits (nat (- i)) else nat_digits (nat i))"

definition is_digit :: "char \<Rightarrow> bool" where
  \<comment> \<open>the class \<open>\d\<close>, on ASCII text\<close>
  "is_digit c = (c \<in> set ''0123456789'')"

definition digit_val :: "char \<Rightarrow> int" where
  "digit_val c = int (of_char c) - 48"

definition int_of_digits :: "string \<Rightarrow> int" where
  \<comment> \<open>\<open>int(s)\<close> on a non-empty string of digits, of any length\<close>
  "int_of_digits ds = foldl (\<lambda>a c. 10 * a + digit_val c) 0 ds"

subsection \<open>The simulated response\<close>

record allocation =
  appliance :: string
  time_to_run :: string
  power_source :: string
  priority :: string

record energy_plan =
  recommendation_summary :: string
  energy_allocation_plan :: "allocation list"
  battery_management :: string
  alerts :: "string list"

record conditions =
  period :: string
  power_source_heavy :: string
  recommendation :: string

definition solar_conditions :: "int \<Rightarrow> conditions" where
  \<comment> \<open>the first \<open>if/elif\<close> chain of \<open>_get_simulated_response\<close>: its three local variables\<close>
  "solar_conditions solar_watts =
     (if solar_watts > 2000 then
        \<lparr>period = ''Peak Sun (High Production)'',
         power_source_heavy = ''Direct Solar'',
         recommendation = ''Excellent time for high-power appliances. Run water heater and washing machine now.''\<rparr>
      else if solar_watts > 500 then
        \<lparr>period = ''Moderate Sun'',
         power_source_heavy = ''Direct Solar'',
         recommendation = ''Good time for medium-power appliances. Save heavy tasks if possible.''\<rparr>
      else if solar_watts > 100 then
        \<lparr>period = ''Low Sun'',
         power_source_heavy = ''Battery'',
         recommendation = ''Transition to battery power. Minimize non-essential usage.''\<rparr>
      else
        \<lparr>period = ''Night/No Sun'',
         power_source_heavy = ''Battery'',
         recommendation = ''Use only essential appliances. Preserve battery for overnight needs.''\<rparr>)"

definition battery_advice :: "int \<Rightarrow> string" where
  \<comment> \<open>the second \<open>if/elif\<close> chain\<close>
  "battery_advice battery_pct =
     (if battery_pct > 80 then ''Battery well charged. Can support high-power loads if needed.''
      else if battery_pct > 50 then ''Battery at moderate level. Monitor usage and prioritize essentials.''
      else ''Battery getting low. Conserve power and avoid non-essential appliances.'')"

definition get_simulated_response :: "int \<Rightarrow> int \<Rightarrow> energy_plan" where
  \<comment> \<open>\<open>_get_simulated_response(solar_watts, battery_pct)\<close>: the dictionary that the source
      serialises with \<open>json.dumps\<close> into the single text part of the single candidate\<close>
  "get_simulated_response solar_watts battery_pct =
     (let c = solar_conditions solar_watts in
      \<lparr>recommendation_summary =
         recommendation c @ '' Current conditions: '' @ period c @ '', Battery: '' @ str_int battery_pct @ ''%'',
       energy_allocation_plan =
         [\<lparr>appliance = ''Refrigerator'', time_to_run = ''24/7'',
            power_source = ''Solar/Battery'', priority = ''Essential''\<rparr>,
          \<lparr>appliance = ''Lights (LED x5)'', time_to_run = ''As needed'',
            power_source = (if solar_watts < 100 then ''Battery'' else ''Solar''), priority = ''Essential''\<rparr>,
          \<lparr>appliance = ''Water Heater'', time_to_run = ''During peak sun if available'',
            power_source = power_source_heavy c, priority = ''High''\<rparr>,
          \<lparr>appliance = ''Washing Machine'', time_to_run = ''When solar > 2000W'',
            power_source = power_source_heavy c, priority = ''Medium''\<rparr>,
          \<lparr>appliance = ''Television'', time_to_run = ''Evening (limited use)'',
            power_source = ''Battery'', priority = ''Low''\<rparr>,
          \<lparr>appliance = ''Laptop Charger'', time_to_run = ''Daytime preferred'',
            power_source = (if solar_watts > 100 then ''Solar'' else ''Battery''), priority = ''Medium''\<rparr>],
       battery_management =
         battery_advice battery_pct @ '' Current solar: '' @ str_int solar_watts @ ''W. ''
           @ (if solar_watts > 1000 then ''Charge mode active'' else ''Conservation mode - discharge minimally'')
           @ ''.'',
       alerts =
         [''Current solar production: '' @ str_int solar_watts @ ''W'',
          ''Battery level: '' @ str_int battery_pct @ ''%'',
          (if solar_watts \<ge> 0 then ''Demo mode active - simulated AI responses'' else '''')]\<rparr>)"

subsection \<open>Finding the readings in the prompt\<close>

text \<open>
  The source searches the prompt with \<open>re.search\<close> for a literal label, a group \<open>(\d+)\<close>
  and a literal tail (\<open>" Watts"\<close>, \<open>"%"\<close>). The tail begins with a character that is not
  a digit, so at a given position the group can only be the whole run of digits after the
  label; \<open>re.search\<close> takes the leftmost position at which the pattern matches.
\<close>

definition match_here :: "string \<Rightarrow> string \<Rightarrow> string \<Rightarrow> string option" where
  "match_here label tail s =
     (if prefix label s then
        (let rest = drop (length label) s; ds = takeWhile is_digit rest in
         if ds \<noteq> [] \<and> prefix tail (dropWhile is_digit rest) then Some ds else None)
      else None)"

fun re_search :: "string \<Rightarrow> string \<Rightarrow> string \<Rightarrow> string option" where
  "re_search label tail [] = match_here label tail []"
| "re_search label tail (c # cs) =
     (case match_here label tail (c # cs) of
        Some ds \<Rightarrow> Some ds
      | None \<Rightarrow> re_search label tail cs)"

definition solar_label :: string where
  "solar_label = ''Solar Panel Production: ''"

definition battery_label :: string where
  "battery_label = ''Current Battery Charge: ''"

definition extract_readings :: "string \<Rightarrow> int \<times> int" where
  \<comment> \<open>the \<open>try\<close> block after the loop: the defaults 0 and 50 stay where a pattern does not match\<close>
  "extract_readings prompt =
     (let solar_match = re_search solar_label '' Watts'' prompt;
          battery_match = re_search battery_label ''%'' prompt
      in ((case solar_match of Some ds \<Rightarrow> int_of_digits ds | None \<Rightarrow> 0),
          (case battery_match of Some ds \<Rightarrow> int_of_digits ds | None \<Rightarrow> 50)))"

subsection \<open>\<open>generate_content\<close>\<close>

text \<open>
  \<open>requests.post\<close> is the environment: a function of the URL and the prompt that either
  gives a response (its status code, its decoded JSON body, its text) or raises a
  \<open>RequestException\<close>. A response with status 200 is taken to carry a JSON body, which
  \<open>response.json()\<close> decodes. The result of \<open>generate_content\<close> is either the body of a
  successful response or the simulated response; the posts it makes are returned with it,
  as the list of the models tried, in order.
\<close>

record 'j response =
  status_code :: int
  json_body :: 'j
  body_text :: string

datatype 'j post_result = Response "'j response" | RequestException string

datatype 'j content = Api_Json 'j | Simulated energy_plan

definition models_to_try :: "string list" where
  "models_to_try = [''gemini-1.5-flash'', ''gemini-1.5-pro'', ''gemini-pro'']"

definition api_url :: "string \<Rightarrow> string \<Rightarrow> string" where
  "api_url api_key model =
     ''https://generativelanguage.googleapis.com/v1beta/models/'' @ model
       @ '':generateContent?key='' @ api_key"

fun try_models ::
  "string \<Rightarrow> (string \<Rightarrow> string \<Rightarrow> 'j post_result) \<Rightarrow> string \<Rightarrow> string list
     \<Rightarrow> string list \<times> 'j content option" where
  "try_models api_key post prompt [] = ([], None)"
| "try_models api_key post prompt (model # rest) =
     (case post (api_url api_key model) prompt of
        Response r \<Rightarrow>
          if status_code r = 200 then ([model], Some (Api_Json (json_body r)))
          else if status_code r = 429 then ([model], Some (Simulated (get_simulated_response 0 50)))
          else (let (tried, res) = try_models api_key post prompt rest in (model # tried, res))
      | RequestException e \<Rightarrow>
          (let (tried, res) = try_models api_key post prompt rest in (model # tried, res)))"

definition generate_content ::
  "string \<Rightarrow> (string \<Rightarrow> string \<Rightarrow> 'j post_result) \<Rightarrow> string \<Rightarrow> string list \<times> 'j content" where
  "generate_content api_key post prompt =
     (case try_models api_key post prompt models_to_try of
        (tried, Some res) \<Rightarrow> (tried, res)
      | (tried, None) \<Rightarrow>
          (let (solar_watts, battery_pct) = extract_readings prompt
           in (tried, Simulated (get_simulated_response solar_watts battery_pct))))"

text \<open>The outcome of one candidate, in the words of the specification.\<close>

datatype 'j outcome = Success 'j | Rate_Limited | Failed

definition outcome_of :: "'j post_result \<Rightarrow> 'j outcome" where
  "outcome_of p =
     (case p of
        RequestException e \<Rightarrow> Failed
      | Response r \<Rightarrow>
          if status_code r = 200 then Success (json_body r)
          else if status_code r = 429 then Rate_Limited else Failed)"

subsection \<open>The prompt of the energy agent\<close>

text \<open>
  Source: \<^verbatim>\<open>SolarEnergyAgent._create_prompt\<close>. The f-string interpolates seven texts: the
  formatted time, the solar reading, the capacity, the battery reading, the charge in Wh with
  two decimals, and the JSON of the appliance table and of the last three log entries. They
  are parameters here, in the order in which they appear in the prompt. The literal pieces
  between them are those of the source, named one by one; the last piece is given line by
  line.
\<close>

definition py_isspace :: "char \<Rightarrow> bool" where
  \<comment> \<open>the characters that \<open>str.strip()\<close> removes, on ASCII text\<close>
  "py_isspace c = (c \<in> set [CHR 0x09, CHR 0x0A, CHR 0x0B, CHR 0x0C, CHR 0x0D,
                                CHR 0x1C, CHR 0x1D, CHR 0x1E, CHR 0x1F, CHR 0x20])"

definition py_strip :: "string \<Rightarrow> string" where
  "py_strip s = rev (dropWhile py_isspace (rev (dropWhile py_isspace s)))"

definition prompt_intro :: string where
  \<open>prompt_intro = ''Act as an expert AI Solar Energy Management Agent.\<newline>        \<newline>        Current State at ''\<close>

definition prompt_solar :: string where
  \<open>prompt_solar = '':\<newline>        - Solar Panel Production: ''\<close>

definition prompt_capacity :: string where
  \<open>prompt_capacity = '' Watts\<newline>        - Battery Capacity: ''\<close>

definition prompt_charge :: string where
  \<open>prompt_charge = '' Wh\<newline>        - Current Battery Charge: ''\<close>

definition prompt_charge_wh :: string where
  \<open>prompt_charge_wh = ''% (''\<close>

definition prompt_appliances :: string where
  \<open>prompt_appliances = '' Wh)\<newline>\<newline>        List of available electrical appliances and their power draw:\<newline>        ''\<close>

definition prompt_log :: string where
  \<open>prompt_log = ''\<newline>\<newline>        Previous Energy Log (last 3 entries):\<newline>        ''\<close>

definition prompt_task_lines :: "string list" where
  \<open>prompt_task_lines =
     [''\<newline>\<newline>        Task:\<newline>'',
      ''        Provide a detailed energy management plan in a structured JSON format. \<newline>'',
      ''        \<newline>'',
      ''        IMPORTANT: Respond ONLY with valid JSON, no other text or explanations.\<newline>'',
      ''        \<newline>'',
      ''        The JSON should include:\<newline>'',
      ''        1.  `recommendation_summary`: A brief, actionable summary.\<newline>'',
      ''        2.  `energy_allocation_plan`: A list of dictionaries, where each dictionary contains `appliance`, `time_to_run`, `power_source` (Direct Solar or Battery), and `priority` (Essential, High, Medium, Low).\<newline>'',
      ''        3.  `battery_management`: Specific instructions on when to charge or discharge the battery.\<newline>'',
      ''        4.  `alerts`: Any important alerts for the user (e.g., "Low production forecast", "Excess energy available").\<newline>'',
      ''        \<newline>'',
      ''        Prioritize running high-power appliances directly from solar during peak production.\<newline>'',
      ''        Use the battery for essential loads when solar production is low or at night.\<newline>'',
      ''        Ensure the battery is preserved for essential needs.'']\<close>

definition prompt_task :: string where
  "prompt_task = concat prompt_task_lines"

definition create_prompt ::
  "string \<Rightarrow> string \<Rightarrow> string \<Rightarrow> string \<Rightarrow> string \<Rightarrow> string \<Rightarrow> string \<Rightarrow> string" where
  \<open>create_prompt current_time solar_text capacity_text battery_text battery_wh_text appliances_json log_json =
     py_strip (''\<newline>        '' @ prompt_intro @ current_time
       @ prompt_solar @ solar_text
       @ prompt_capacity @ capacity_text
       @ prompt_charge @ battery_text
       @ prompt_charge_wh @ battery_wh_text
       @ prompt_appliances @ appliances_json
       @ prompt_log @ log_json
       @ prompt_task @ ''\<newline>        '')\<close>

text \<open>
  A piece of text is free of a label when the label begins at none of its positions, not
  even partly (running over the end of the piece).
\<close>

fun label_free :: "string \<Rightarrow> string \<Rightarrow> bool" where
  "label_free label [] = True"
| "label_free label (c # cs) =
     (\<not> prefix label (c # cs) \<and> \<not> prefix (c # cs) label \<and> label_free label cs)"

definition no_label :: "string \<Rightarrow> bool" where
  "no_label seg = (label_free solar_label seg \<and> label_free battery_label seg)"


text \<open>The appliance table of \<^verbatim>\<open>Main_Application.py\<close> and \<^verbatim>\<open>solar_api_server.py\<close>, as
  \<open>json.dumps(..., indent=2)\<close> writes it.\<close>

definition demo_appliances_json :: string where
  \<open>demo_appliances_json =
     ''{\<newline>  "Refrigerator": 200,\<newline>  "Lights (LED x5)": 50,\<newline>  "Television": 150,\<newline>  "Washing Machine": 2000,\<newline>  "Water Heater": 3000,\<newline>  "Laptop Charger": 65\<newline>}''\<close>

text \<open>The log after one call of \<open>track_and_advise\<close>, as \<open>json.dumps(..., indent=2)\<close> writes
  it; the two readings are given as they are written.\<close>

definition demo_log_json :: "string \<Rightarrow> string \<Rightarrow> string" where
  \<open>demo_log_json solar_text battery_text =
     ''[\<newline>  {\<newline>    "timestamp": "2025-06-01T12:00:00.000001",\<newline>    "solar_production_watts": ''
       @ solar_text @ '',\<newline>    "battery_percentage": '' @ battery_text @ ''\<newline>  }\<newline>]''\<close>

subsection \<open>The four bands, in the words of the specification\<close>

datatype band = Night | Low_Sun | Moderate_Sun | Peak_Sun

definition band_of :: "int \<Rightarrow> band" where
  \<comment> \<open>thresholds 100, 500 and 2000; a value at a threshold belongs to the lower band\<close>
  "band_of w = (if w \<le> 100 then Night else if w \<le> 500 then Low_Sun
                else if w \<le> 2000 then Moderate_Sun else Peak_Sun)"

fun band_period :: "band \<Rightarrow> string" where
  "band_period Night = ''Night/No Sun''"
| "band_period Low_Sun = ''Low Sun''"
| "band_period Moderate_Sun = ''Moderate Sun''"
| "band_period Peak_Sun = ''Peak Sun (High Production)''"

fun band_source :: "band \<Rightarrow> string" where
  "band_source Night = ''Battery''"
| "band_source Low_Sun = ''Battery''"
| "band_source Moderate_Sun = ''Direct Solar''"
| "band_source Peak_Sun = ''Direct Solar''"

fun band_advice :: "band \<Rightarrow> string" where
  "band_advice Night = ''Use only essential appliances. Preserve battery for overnight needs.''"
| "band_advice Low_Sun = ''Transition to battery power. Minimize non-essential usage.''"
| "band_advice Moderate_Sun = ''Good time for medium-power appliances. Save heavy tasks if possible.''"
| "band_advice Peak_Sun = ''Excellent time for high-power appliances. Run water heater and washing machine now.''"

section \<open>Carbon-footprint pipeline\<close>



subsection \<open>String helpers\<close>

definition py_lower_char :: "char \<Rightarrow> char" where
  \<comment> \<open>\<open>str.lower()\<close> on ASCII text\<close>
  "py_lower_char c =
     (let n = (of_char c :: nat) in if 65 \<le> n \<and> n \<le> 90 then char_of (n + 32) else c)"

definition py_lower :: "string \<Rightarrow> string" where
  "py_lower s = map py_lower_char s"

fun py_contains :: "string \<Rightarrow> string \<Rightarrow> bool" where
  \<comment> \<open>\<open>sub in s\<close> for two strings\<close>
  "py_contains sub [] = (sub = [])"
| "py_contains sub (c # cs) = (prefix sub (c # cs) \<or> py_contains sub cs)"



subsection \<open>\<open>KnowledgeRetriever\<close>: the three tools\<close>

record footprint =
  co2e_kg :: rat
  source :: string
  confidence :: string
  fp_notes :: "string option"

definition MOCK_INTERNAL_DATABASE :: "(string \<times> footprint) list" where
  "MOCK_INTERNAL_DATABASE =
     [(''coca-cola, 0.5l, pet bottle'',
         \<lparr>co2e_kg = 17 / 100, source = ''Internal DB (EcoInvent)'', confidence = ''High'',
          fp_notes = None\<rparr>),
      (''t-shirt, cotton, blue, large'',
         \<lparr>co2e_kg = 68 / 10, source = ''Internal DB (OpenApparel)'', confidence = ''High'',
          fp_notes = None\<rparr>)]"

definition MOCK_CATEGORY_FALLBACKS :: "(string \<times> rat) list" where
  "MOCK_CATEGORY_FALLBACKS =
     [(''Food'', 15 / 10), (''Beverage'', 5 / 10), (''Clothing'', 7), (''Electronics'', 25),
      (''Flights'', 115 / 1000), (''Other'', 5)]"

text \<open>Each tool returns a JSON text: either a footprint or an object with the one key
  \<open>error\<close>. The two shapes are the two sides of a sum.\<close>

definition lookup_internal_database :: "string \<Rightarrow> string + footprint" where
  "lookup_internal_database canonical_name =
     (let normalized_name = py_lower canonical_name in
      case map_of MOCK_INTERNAL_DATABASE normalized_name of
        Some r \<Rightarrow> Inr r
      | None \<Rightarrow> Inl ''Product not found in the internal database.'')"

definition lays_phrase :: string where
  "lays_phrase = ''lay'' @ [CHR 0x27] @ ''s classic potato chips''"

definition search_web_for_footprint_data :: "string \<Rightarrow> string + footprint" where
  "search_web_for_footprint_data canonical_name =
     (if py_contains lays_phrase (py_lower canonical_name)
      then Inr \<lparr>co2e_kg = 75 / 1000,
                source = ''Simulated Web Scrape (GoodFood Institute Report)'',
                confidence = ''Medium'',
                fp_notes = Some ''Based on potato farming, processing, and packaging.''\<rparr>
      else Inl ''Could not find reliable footprint data from web search.'')"

definition use_category_fallback_heuristic :: "string \<Rightarrow> string + footprint" where
  "use_category_fallback_heuristic category =
     (case map_of MOCK_CATEGORY_FALLBACKS category of
        Some co2e \<Rightarrow>
          Inr \<lparr>co2e_kg = co2e, source = ''Category Fallback Heuristic'', confidence = ''Low'',
               fp_notes = None\<rparr>
      | None \<Rightarrow> Inl (''Category '' @ [CHR 0x27] @ category @ [CHR 0x27] @ '' has no fallback value.''))"

subsection \<open>\<open>run_agentic_loop\<close>\<close>

text \<open>
  The planner is the remote model: given the tool calls made so far and their results, it
  names the next tool and its argument, or answers with text, which ends the loop. The
  loop may go on for as long as the planner names tools, so it runs on fuel; it returns the
  calls it has executed, in order.
\<close>

record tool_call =
  tool_name :: string
  tool_arg :: string

datatype loop_end = Finished | Unknown_Tool string | Out_Of_Fuel

fun run_agentic_loop ::
  "nat \<Rightarrow> ((tool_call \<times> (string + footprint)) list \<Rightarrow> tool_call option)
     \<Rightarrow> (tool_call \<times> (string + footprint)) list
     \<Rightarrow> (tool_call \<times> (string + footprint)) list \<times> loop_end" where
  "run_agentic_loop 0 planner history = (history, Out_Of_Fuel)"
| "run_agentic_loop (Suc fuel) planner history =
     (case planner history of
        None \<Rightarrow> (history, Finished)
      | Some call \<Rightarrow>
          if tool_name call = ''_lookup_internal_database''
          then run_agentic_loop fuel planner
                 (history @ [(call, lookup_internal_database (tool_arg call))])
          else if tool_name call = ''_search_web_for_footprint_data''
          then run_agentic_loop fuel planner
                 (history @ [(call, search_web_for_footprint_data (tool_arg call))])
          else if tool_name call = ''_use_category_fallback_heuristic''
          then run_agentic_loop fuel planner
                 (history @ [(call, use_category_fallback_heuristic (tool_arg call))])
          else (history, Unknown_Tool (tool_name call)))"

subsection \<open>Layer 3 of \<open>run_complete_pipeline\<close>\<close>

record layer3_result =
  l3_canonical_name :: string
  l3_category :: string
  l3_co2e_kg :: rat
  l3_source :: string
  l3_confidence :: string

definition fallback_values :: "(string \<times> rat) list" where
  "fallback_values =
     [(''Food'', 15 / 10), (''Beverage'', 5 / 10), (''Clothing'', 7), (''Electronics'', 25),
      (''Flights'', 115 / 1000), (''Other'', 5)]"

definition layer3_knowledge_retrieval :: "string \<Rightarrow> string \<Rightarrow> layer3_result" where
  "layer3_knowledge_retrieval canonical_name category =
     (if py_contains lays_phrase (py_lower canonical_name) then
        \<lparr>l3_canonical_name = canonical_name, l3_category = category, l3_co2e_kg = 75 / 1000,
         l3_source = ''Simulated Web Scrape (GoodFood Institute Report)'',
         l3_confidence = ''Medium''\<rparr>
      else
        \<lparr>l3_canonical_name = canonical_name, l3_category = category,
         l3_co2e_kg = (case map_of fallback_values category of Some v \<Rightarrow> v | None \<Rightarrow> 5),
         l3_source = ''Category Fallback Heuristic'', l3_confidence = ''Low''\<rparr>)"

subsection \<open>\<open>FootprintEstimator\<close>\<close>



record breakdown =
  production :: rat
  packaging :: rat
  transport :: rat













subsection \<open>\<open>EntityStandardizer.standardize_json\<close>\<close>







section \<open>Theorems\<close>

lemma solar_conditions_band:
  "solar_conditions w =
     \<lparr>period = band_period (band_of w), power_source_heavy = band_source (band_of w),
      recommendation = band_advice (band_of w)\<rparr>"
  by (simp add: solar_conditions_def band_of_def)

text \<open>
  C8. The rule-based fallback plan sorts the solar production into four bands with the
  thresholds 100, 500 and 2000 watts, a value exactly at a threshold falling into the lower
  band; the band alone fixes the period, the power source of the heavy appliances (water
  heater, washing machine) and the recommendation text that opens the summary; and for
  3500 watts at 75 percent battery the period is "Peak Sun (High Production)" and the heavy
  appliances run on "Direct Solar".
\<close>

theorem fallback_plan_bands:
  "period (solar_conditions w) = band_period (band_of w)
   \<and> power_source_heavy (solar_conditions w) = band_source (band_of w)
   \<and> recommendation (solar_conditions w) = band_advice (band_of w)
   \<and> recommendation_summary (get_simulated_response w b) =
       band_advice (band_of w) @ '' Current conditions: '' @ band_period (band_of w)
         @ '', Battery: '' @ str_int b @ ''%''
   \<and> map power_source (filter (\<lambda>a. appliance a \<in> {''Water Heater'', ''Washing Machine''})
         (energy_allocation_plan (get_simulated_response w b)))
       = [band_source (band_of w), band_source (band_of w)]
   \<and> band_of 100 = Night \<and> band_of 101 = Low_Sun
   \<and> band_of 500 = Low_Sun \<and> band_of 501 = Moderate_Sun
   \<and> band_of 2000 = Moderate_Sun \<and> band_of 2001 = Peak_Sun
   \<and> period (solar_conditions 100) = ''Night/No Sun''
   \<and> period (solar_conditions 500) = ''Low Sun''
   \<and> period (solar_conditions 2000) = ''Moderate Sun''
   \<and> period (solar_conditions 3500) = ''Peak Sun (High Production)''
   \<and> power_source_heavy (solar_conditions 3500) = ''Direct Solar''
   \<and> map power_source (filter (\<lambda>a. appliance a \<in> {''Water Heater'', ''Washing Machine''})
         (energy_allocation_plan (get_simulated_response 3500 75)))
       = [''Direct Solar'', ''Direct Solar'']"
proof -
  have b: "period (solar_conditions 500) = ''Low Sun''"
    and c: "period (solar_conditions 2000) = ''Moderate Sun''"
    and d: "period (solar_conditions 3500) = ''Peak Sun (High Production)''"
    and e: "power_source_heavy (solar_conditions 3500) = ''Direct Solar''"
    by (simp_all add: solar_conditions_def)
  have f: "period (solar_conditions 100) = ''Night/No Sun''"
    by (simp add: solar_conditions_def)
  have g: "band_of 100 = Night" "band_of 101 = Low_Sun" "band_of 500 = Low_Sun"
    "band_of 501 = Moderate_Sun" "band_of 2000 = Moderate_Sun" "band_of 2001 = Peak_Sun"
    by (simp_all add: band_of_def)
  have h: "recommendation_summary (get_simulated_response w b) =
       band_advice (band_of w) @ '' Current conditions: '' @ band_period (band_of w)
         @ '', Battery: '' @ str_int b @ ''%''" for w b
    by (simp add: get_simulated_response_def Let_def solar_conditions_band)
  have i: "map power_source (filter (\<lambda>a. appliance a \<in> {''Water Heater'', ''Washing Machine''})
         (energy_allocation_plan (get_simulated_response w b)))
       = [band_source (band_of w), band_source (band_of w)]" for w b
    by (simp add: get_simulated_response_def Let_def solar_conditions_band)
  have j: "band_source (band_of 3500) = ''Direct Solar''"
    by (simp add: band_of_def)
  show ?thesis
    using b c d e f g h i [of w b] i [of 3500 75] j
    by (simp add: solar_conditions_band)
qed

subsection \<open>Searching the prompt\<close>

lemma re_search_skip:
  "label_free label xs \<Longrightarrow> re_search label tail (xs @ rest) = re_search label tail rest"
proof (induction xs)
  case Nil
  then show ?case by simp
next
  case (Cons c cs)
  then have np: "\<not> prefix label (c # cs)" and nq: "\<not> prefix (c # cs) label"
    and fr: "label_free label cs"
    by simp_all
  have "\<not> prefix label ((c # cs) @ rest)"
  proof
    assume "prefix label ((c # cs) @ rest)"
    then have "prefix label (c # cs) \<or> (\<exists>us. label = (c # cs) @ us \<and> prefix us rest)"
      by (simp only: prefix_append)
    with np nq show False by (auto simp: prefix_def)
  qed
  then have "match_here label tail (c # cs @ rest) = None"
    by (simp add: match_here_def)
  with Cons.IH [OF fr] show ?case by simp
qed







subsection \<open>The shape of the prompt\<close>

lemma py_strip_frame:
  assumes w1: "\<And>c. c \<in> set ws1 \<Longrightarrow> py_isspace c" and w2: "\<And>c. c \<in> set ws2 \<Longrightarrow> py_isspace c"
    and ne: "body \<noteq> []" and h: "\<not> py_isspace (hd body)" and l: "\<not> py_isspace (last body)"
  shows "py_strip (ws1 @ body @ ws2) = body"
proof -
  from ne obtain a as where b: "body = a # as" by (cases body) auto
  have "dropWhile py_isspace (ws1 @ body @ ws2) = dropWhile py_isspace (body @ ws2)"
    by (rule dropWhile_append2) (simp add: w1)
  then have 1: "dropWhile py_isspace (ws1 @ body @ ws2) = body @ ws2"
    using h by (simp add: b)
  have e1: "dropWhile py_isspace (rev ws2 @ rev body) = dropWhile py_isspace (rev body)"
    by (rule dropWhile_append2) (simp add: w2)
  from ne have "rev body \<noteq> []" by simp
  then obtain z zs where rb: "rev body = z # zs" by (cases "rev body") auto
  then have "z = last body" using ne by (metis hd_rev list.sel(1))
  with l have "\<not> py_isspace z" by simp
  then have "dropWhile py_isspace (z # zs) = z # zs" by simp
  with e1 rb have 2: "dropWhile py_isspace (rev ws2 @ rev body) = rev body" by simp
  show ?thesis
    by (simp add: py_strip_def 1 2)
qed

lemma prompt_intro_hd: "prompt_intro \<noteq> [] \<and> hd prompt_intro = CHR ''A''"
  by (simp add: prompt_intro_def)

lemma prompt_task_last: "prompt_task \<noteq> [] \<and> last prompt_task = CHR ''.''"
proof -
  define z where "z = ''        Ensure the battery is preserved for essential needs.''"
  have "prompt_task_lines = butlast prompt_task_lines @ [z]"
    by (simp add: prompt_task_lines_def z_def)
  then have "concat prompt_task_lines = concat (butlast prompt_task_lines @ [z])"
    by (rule arg_cong)
  then have pt: "prompt_task = concat (butlast prompt_task_lines) @ z"
    by (simp add: prompt_task_def)
  have zz: "z \<noteq> []" "last z = CHR ''.''"
    by (simp_all add: z_def)
  show ?thesis
    by (simp only: pt last_appendR [OF zz(1)] zz(2) append_is_Nil_conv zz(1) simp_thms)
qed

lemma create_prompt_eq:
  "create_prompt t s c b w a l =
     prompt_intro @ t @ prompt_solar @ s @ prompt_capacity @ c @ prompt_charge @ b
       @ prompt_charge_wh @ w @ prompt_appliances @ a @ prompt_log @ l @ prompt_task"
  (is "_ = ?body")
proof -
  have ne: "?body \<noteq> []" using prompt_intro_hd by simp
  have h: "\<not> py_isspace (hd ?body)"
    using prompt_intro_hd by (simp add: py_isspace_def)
  have l: "\<not> py_isspace (last ?body)"
    using prompt_task_last by (simp add: py_isspace_def)
  have "create_prompt t s c b w a l = py_strip (''\<newline>        '' @ ?body @ ''\<newline>        '')"
    by (simp add: create_prompt_def)
  also have "\<dots> = ?body"
    by (rule py_strip_frame [OF _ _ ne h l]) (auto simp: py_isspace_def)
  finally show ?thesis .
qed

subsection \<open>The literal pieces of the prompt hold no label but the two of the readings\<close>

lemma solar_free_pieces:
  "label_free solar_label prompt_intro"
  "label_free solar_label prompt_capacity"
  "label_free solar_label prompt_charge"
  "label_free solar_label prompt_charge_wh"
  "label_free solar_label prompt_appliances"
  "label_free solar_label prompt_log"
  "label_free solar_label (tl solar_label)"
  by (simp_all add: solar_label_def prompt_intro_def prompt_capacity_def prompt_charge_def
      prompt_charge_wh_def prompt_appliances_def prompt_log_def)


lemma battery_free_pieces:
  "label_free battery_label prompt_intro"
  "label_free battery_label prompt_solar"
  "label_free battery_label prompt_capacity"
  "label_free battery_label prompt_charge_wh"
  "label_free battery_label prompt_appliances"
  "label_free battery_label prompt_log"
  "label_free battery_label (tl battery_label)"
  by (simp_all add: battery_label_def prompt_intro_def prompt_solar_def prompt_capacity_def
      prompt_charge_wh_def prompt_appliances_def prompt_log_def)


lemma prompt_solar_split:
  "prompt_solar = '':\<newline>        - '' @ solar_label"
  "label_free solar_label '':\<newline>        - ''"
  by (simp_all add: prompt_solar_def solar_label_def)

lemma prompt_charge_split:
  "prompt_charge = '' Wh\<newline>        - '' @ battery_label"
  "label_free battery_label '' Wh\<newline>        - ''"
  by (simp_all add: prompt_charge_def battery_label_def)





subsection \<open>The candidate loop\<close>

lemma try_models_failed_prefix:
  "\<forall>c\<in>set pre. outcome_of (post (api_url k c) p) = Failed \<Longrightarrow>
   try_models k post p (pre @ rest) =
     (pre @ fst (try_models k post p rest), snd (try_models k post p rest))"
proof (induction pre)
  case Nil
  then show ?case by simp
next
  case (Cons c cs)
  then have f: "outcome_of (post (api_url k c) p) = Failed"
    and ih: "try_models k post p (cs @ rest) =
      (cs @ fst (try_models k post p rest), snd (try_models k post p rest))"
    by simp_all
  from f show ?case
    by (cases "post (api_url k c) p") (simp_all add: outcome_of_def ih split: if_splits)
qed

lemma try_models_all_failed:
  "\<forall>c\<in>set ms. outcome_of (post (api_url k c) p) = Failed \<Longrightarrow>
   try_models k post p ms = (ms, None)"
  using try_models_failed_prefix [of ms post k p "[]"] by simp




lemma generate_content_rate_limited:
  assumes "models_to_try = pre @ m # suf"
    and "\<forall>c\<in>set pre. outcome_of (post (api_url k c) p) = Failed"
    and "outcome_of (post (api_url k m) p) = Rate_Limited"
  shows "generate_content k post p = (pre @ [m], Simulated (get_simulated_response 0 50))"
proof -
  have "try_models k post p (m # suf) = ([m], Some (Simulated (get_simulated_response 0 50)))"
    using assms(3)
    by (cases "post (api_url k m) p") (simp_all add: outcome_of_def split: if_splits)
  moreover have "try_models k post p (pre @ m # suf) =
      (pre @ fst (try_models k post p (m # suf)), snd (try_models k post p (m # suf)))"
    using assms(2) by (rule try_models_failed_prefix)
  ultimately have "try_models k post p models_to_try
      = (pre @ [m], Some (Simulated (get_simulated_response 0 50)))"
    by (simp only: assms(1) fst_conv snd_conv)
  then show ?thesis by (simp add: generate_content_def)
qed

lemma generate_content_all_failed:
  assumes "\<forall>c\<in>set models_to_try. outcome_of (post (api_url k c) p) = Failed"
  shows "generate_content k post p =
     (models_to_try,
      Simulated (get_simulated_response (fst (extract_readings p)) (snd (extract_readings p))))"
proof -
  from assms have "try_models k post p models_to_try = (models_to_try, None)"
    by (rule try_models_all_failed)
  then show ?thesis by (simp add: generate_content_def split_beta)
qed




lemma charset_label_free:
  assumes "set v \<subseteq> A" and "label \<noteq> []" and "hd label \<notin> A"
  shows "label_free label v"
proof -
  from assms(2) obtain t ts where t: "label = t # ts" by (cases label) auto
  have "set xs \<subseteq> A \<Longrightarrow> label_free label xs" for xs
  proof (induction xs)
    case Nil
    then show ?case by simp
  next
    case (Cons c cs)
    then have "c \<noteq> t" using assms(3) t by auto
    with Cons show ?case by (simp add: t)
  qed
  with assms(1) show ?thesis by blast
qed

lemma re_search_hit:
  assumes "label \<noteq> []" and "ds \<noteq> []" and "\<forall>c\<in>set ds. is_digit c"
    and "tail \<noteq> []" and "\<not> is_digit (hd tail)"
  shows "re_search label tail (label @ ds @ tail @ rest) = Some ds"
proof -
  from assms(1) obtain c cs where l: "label = c # cs" by (cases label) auto
  from assms(4) obtain t ts where t: "tail = t # ts" by (cases tail) auto
  have nt: "\<not> is_digit t" using assms(5) t by simp
  have tw: "takeWhile is_digit (ds @ tail @ rest) = ds"
    using assms(3) nt by (simp add: takeWhile_append2 t takeWhile_tail)
  have dw: "dropWhile is_digit (ds @ tail @ rest) = tail @ rest"
    using assms(3) nt by (simp add: dropWhile_append2 t)
  have "match_here label tail (label @ ds @ tail @ rest) = Some ds"
    using assms(2) by (simp add: match_here_def Let_def tw dw)
  then show ?thesis by (simp add: l)
qed

lemma digits_no_label: "\<forall>c\<in>set s. is_digit c \<Longrightarrow> no_label s"
  unfolding no_label_def
  by (intro conjI charset_label_free [where A = "set ''0123456789''"])
     (auto simp: is_digit_def solar_label_def battery_label_def)

lemma prompt_capacity_split: "\<exists>r. prompt_capacity = '' Watts'' @ r"
  by (simp add: prompt_capacity_def)

lemma prompt_charge_wh_split: "\<exists>r. prompt_charge_wh = ''%'' @ r"
  by (simp add: prompt_charge_wh_def)

lemma solar_search_integer:
  assumes t: "no_label t" and s: "s \<noteq> []" "\<forall>x\<in>set s. is_digit x"
  shows "re_search solar_label '' Watts'' (create_prompt t s c b w a l) = Some s"
proof -
  define pre where "pre = '':\<newline>        - ''"
  from prompt_capacity_split obtain r where cp: "prompt_capacity = '' Watts'' @ r" ..
  define rest where "rest = r @ c @ prompt_charge @ b
       @ prompt_charge_wh @ w @ prompt_appliances @ a @ prompt_log @ l @ prompt_task"
  have ne: "solar_label \<noteq> []" by (simp add: solar_label_def)
  have ft: "label_free solar_label t" using t by (simp add: no_label_def)
  have sp: "prompt_solar = pre @ solar_label" and pf: "label_free solar_label pre"
    using prompt_solar_split by (simp_all add: pre_def)
  have "create_prompt t s c b w a l = prompt_intro @ t @ pre @ solar_label @ s @ '' Watts'' @ rest"
    by (simp only: create_prompt_eq sp cp rest_def append_assoc)
  then have "re_search solar_label '' Watts'' (create_prompt t s c b w a l)
      = re_search solar_label '' Watts'' (solar_label @ s @ '' Watts'' @ rest)"
    by (simp only: re_search_skip [OF solar_free_pieces(1)] re_search_skip [OF ft]
        re_search_skip [OF pf])
  also have "\<dots> = Some s"
    by (rule re_search_hit [OF ne s]) (simp_all add: is_digit_def)
  finally show ?thesis .
qed

lemma battery_search_integer:
  assumes t: "no_label t" and s: "no_label s" and c: "no_label c"
    and b: "b \<noteq> []" "\<forall>x\<in>set b. is_digit x"
  shows "re_search battery_label ''%'' (create_prompt t s c b w a l) = Some b"
proof -
  define pre where "pre = '' Wh\<newline>        - ''"
  from prompt_charge_wh_split obtain r where cp: "prompt_charge_wh = ''%'' @ r" ..
  define rest where "rest = r @ w @ prompt_appliances @ a @ prompt_log @ l @ prompt_task"
  have ne: "battery_label \<noteq> []" by (simp add: battery_label_def)
  have fr: "label_free battery_label t" "label_free battery_label s" "label_free battery_label c"
    using t s c by (simp_all add: no_label_def)
  have sp: "prompt_charge = pre @ battery_label" and pf: "label_free battery_label pre"
    using prompt_charge_split by (simp_all add: pre_def)
  have "create_prompt t s c b w a l = prompt_intro @ t @ prompt_solar @ s @ prompt_capacity @ c
      @ pre @ battery_label @ b @ ''%'' @ rest"
    by (simp only: create_prompt_eq sp cp rest_def append_assoc)
  then have "re_search battery_label ''%'' (create_prompt t s c b w a l)
      = re_search battery_label ''%'' (battery_label @ b @ ''%'' @ rest)"
    by (simp only: re_search_skip [OF battery_free_pieces(1)] re_search_skip [OF fr(1)]
        re_search_skip [OF battery_free_pieces(2)] re_search_skip [OF fr(2)]
        re_search_skip [OF battery_free_pieces(3)] re_search_skip [OF fr(3)]
        re_search_skip [OF pf])
  also have "\<dots> = Some b"
    by (rule re_search_hit [OF ne b]) (simp_all add: is_digit_def)
  finally show ?thesis .
qed

lemma extract_readings_integer:
  assumes "no_label t" "no_label c" "s \<noteq> []" "\<forall>x\<in>set s. is_digit x"
    "b \<noteq> []" "\<forall>x\<in>set b. is_digit x"
  shows "extract_readings (create_prompt t s c b w a l) = (int_of_digits s, int_of_digits b)"
proof -
  have "no_label s" using assms(4) by (rule digits_no_label)
  then show ?thesis
    using assms
    by (simp add: extract_readings_def solar_search_integer battery_search_integer)
qed


lemma demo_texts_no_label:
  "no_label ''2025-06-01 12:00:00''" "no_label ''10000''" "no_label ''7500.00''"
  "no_label demo_appliances_json"
  "no_label (demo_log_json ''3500.0'' ''75.0'')" "no_label (demo_log_json ''3500'' ''75'')"
  by (simp_all add: no_label_def solar_label_def battery_label_def demo_appliances_json_def
      demo_log_json_def)

lemma simulated_summaries:
  "recommendation_summary (get_simulated_response 0 50) =
     ''Use only essential appliances. Preserve battery for overnight needs. Current conditions: Night/No Sun, Battery: 50%''"
  "recommendation_summary (get_simulated_response 3500 75) =
     ''Excellent time for high-power appliances. Run water heater and washing machine now. Current conditions: Peak Sun (High Production), Battery: 75%''"
  by (simp_all add: get_simulated_response_def solar_conditions_def str_int_def
      nat_digits.simps digit_char_def)



text \<open>
  C2, evaluated at a prompt of \<^verbatim>\<open>Main_Application.py\<close> (3500 watts, 75 percent, both
  written as integers). The fallback after the loop finds both readings and answers with
  the plan for 3500 and 75. The branch for status 429 calls \<open>_get_simulated_response()\<close>
  without arguments: for the same prompt it answers with the plan for the defaults 0 and 50,
  which does not reflect the readings of the prompt.
\<close>

theorem rate_limited_response_ignores_prompt:
  \<open>extract_readings
      (create_prompt ''2025-06-01 12:00:00'' ''3500'' ''10000'' ''75'' ''7500.00''
         demo_appliances_json (demo_log_json ''3500'' ''75'')) = (3500, 75)
   \<and> generate_content ''key''
        (\<lambda>u q. Response \<lparr>status_code = 429, json_body = ''quota'', body_text = ''quota''\<rparr>)
        (create_prompt ''2025-06-01 12:00:00'' ''3500'' ''10000'' ''75'' ''7500.00''
           demo_appliances_json (demo_log_json ''3500'' ''75''))
      = ([''gemini-1.5-flash''], Simulated (get_simulated_response 0 50))
   \<and> generate_content ''key''
        (\<lambda>u q. Response \<lparr>status_code = 500, json_body = ''error'', body_text = ''error''\<rparr>)
        (create_prompt ''2025-06-01 12:00:00'' ''3500'' ''10000'' ''75'' ''7500.00''
           demo_appliances_json (demo_log_json ''3500'' ''75''))
      = ([''gemini-1.5-flash'', ''gemini-1.5-pro'', ''gemini-pro''],
         Simulated (get_simulated_response 3500 75))
   \<and> recommendation_summary (get_simulated_response 0 50) =
       ''Use only essential appliances. Preserve battery for overnight needs. Current conditions: Night/No Sun, Battery: 50%''
   \<and> recommendation_summary (get_simulated_response 3500 75) =
       ''Excellent time for high-power appliances. Run water heater and washing machine now. Current conditions: Peak Sun (High Production), Battery: 75%''\<close>
proof -
  let ?p = "create_prompt ''2025-06-01 12:00:00'' ''3500'' ''10000'' ''75'' ''7500.00''
         demo_appliances_json (demo_log_json ''3500'' ''75'')"
  have "extract_readings ?p = (int_of_digits ''3500'', int_of_digits ''75'')"
    by (rule extract_readings_integer) (simp_all add: demo_texts_no_label is_digit_def)
  then have e: "extract_readings ?p = (3500, 75)"
    by (simp add: int_of_digits_def digit_val_def)
  have r: "generate_content ''key''
        (\<lambda>u q. Response \<lparr>status_code = 429, json_body = ''quota'', body_text = ''quota''\<rparr>) ?p
      = ([] @ [''gemini-1.5-flash''], Simulated (get_simulated_response 0 50))"
    by (rule generate_content_rate_limited [where suf = "[''gemini-1.5-pro'', ''gemini-pro'']"])
       (simp_all add: models_to_try_def outcome_of_def)
  have f: "generate_content ''key''
        (\<lambda>u q. Response \<lparr>status_code = 500, json_body = ''error'', body_text = ''error''\<rparr>) ?p
      = (models_to_try, Simulated (get_simulated_response (fst (extract_readings ?p))
            (snd (extract_readings ?p))))"
    by (rule generate_content_all_failed) (simp add: outcome_of_def)
  from e r f simulated_summaries show ?thesis
    by (simp add: models_to_try_def)
qed


subsection \<open>Knowledge retrieval\<close>

lemma py_lower_coke: "py_lower ''Coca-Cola, 0.5L, PET Bottle'' = ''coca-cola, 0.5l, pet bottle''"
  by code_simp

lemma coke_not_lays: "\<not> py_contains lays_phrase ''coca-cola, 0.5l, pet bottle''"
  by (simp add: lays_phrase_def)

text \<open>
  C3, evaluated at an entity of the internal table ("Coca-Cola, 0.5L, PET Bottle", category
  Beverage). The table holds it, with 0.17 kg and confidence High. Layer 3 of the pipeline
  never consults the table: it answers with the category average 0.5 and confidence Low.
  In \<open>run_agentic_loop\<close> the order of the tools is the planner's: a planner that names the
  category fallback first has it executed first, for the same entity.
\<close>

theorem pipeline_skips_internal_database:
  "lookup_internal_database ''Coca-Cola, 0.5L, PET Bottle'' =
     Inr \<lparr>co2e_kg = 17 / 100, source = ''Internal DB (EcoInvent)'', confidence = ''High'',
          fp_notes = None\<rparr>
   \<and> layer3_knowledge_retrieval ''Coca-Cola, 0.5L, PET Bottle'' ''Beverage'' =
     \<lparr>l3_canonical_name = ''Coca-Cola, 0.5L, PET Bottle'', l3_category = ''Beverage'',
      l3_co2e_kg = 5 / 10, l3_source = ''Category Fallback Heuristic'', l3_confidence = ''Low''\<rparr>
   \<and> run_agentic_loop 3
       (\<lambda>h. if h = [] then Some \<lparr>tool_name = ''_use_category_fallback_heuristic'',
                                  tool_arg = ''Beverage''\<rparr> else None) []
     = ([(\<lparr>tool_name = ''_use_category_fallback_heuristic'', tool_arg = ''Beverage''\<rparr>,
          Inr \<lparr>co2e_kg = 5 / 10, source = ''Category Fallback Heuristic'', confidence = ''Low'',
               fp_notes = None\<rparr>)], Finished)"
proof -
  have 1: "lookup_internal_database ''Coca-Cola, 0.5L, PET Bottle'' =
     Inr \<lparr>co2e_kg = 17 / 100, source = ''Internal DB (EcoInvent)'', confidence = ''High'',
          fp_notes = None\<rparr>"
    by code_simp
  have 2: "layer3_knowledge_retrieval ''Coca-Cola, 0.5L, PET Bottle'' ''Beverage'' =
     \<lparr>l3_canonical_name = ''Coca-Cola, 0.5L, PET Bottle'', l3_category = ''Beverage'',
      l3_co2e_kg = 5 / 10, l3_source = ''Category Fallback Heuristic'', l3_confidence = ''Low''\<rparr>"
    by code_simp
  have f: "use_category_fallback_heuristic ''Beverage'' =
      Inr \<lparr>co2e_kg = 5 / 10, source = ''Category Fallback Heuristic'', confidence = ''Low'',
               fp_notes = None\<rparr>"
    by code_simp
  have 3: "run_agentic_loop 3
       (\<lambda>h. if h = [] then Some \<lparr>tool_name = ''_use_category_fallback_heuristic'',
                                  tool_arg = ''Beverage''\<rparr> else None) []
     = ([(\<lparr>tool_name = ''_use_category_fallback_heuristic'', tool_arg = ''Beverage''\<rparr>,
          Inr \<lparr>co2e_kg = 5 / 10, source = ''Category Fallback Heuristic'', confidence = ''Low'',
               fp_notes = None\<rparr>)], Finished)"
    by code_simp
  from 1 2 3 show ?thesis by blast
qed

lemma fallback_values_same: "fallback_values = MOCK_CATEGORY_FALLBACKS"
  by (simp add: fallback_values_def MOCK_CATEGORY_FALLBACKS_def)

lemma web_not_found_iff:
  "(\<exists>e. search_web_for_footprint_data n = Inl e) = (\<not> py_contains lays_phrase (py_lower n))"
  by (simp add: search_web_for_footprint_data_def)

lemma mystery_widget_not_found:
  "lookup_internal_database ''Mystery Widget'' = Inl ''Product not found in the internal database.''"
  "search_web_for_footprint_data ''Mystery Widget'' =
       Inl ''Could not find reliable footprint data from web search.''"
  by code_simp+

text \<open>
  C7 as stated fails on the tool of \<open>KnowledgeRetriever\<close>: for a name that neither the table
  nor the web lookup knows and a category outside the six keys, the category fallback
  answers with an error object, not with a generic average.
\<close>

theorem category_fallback_tool_reports_error:
  "lookup_internal_database ''Mystery Widget'' = Inl ''Product not found in the internal database.''
   \<and> search_web_for_footprint_data ''Mystery Widget'' =
       Inl ''Could not find reliable footprint data from web search.''
   \<and> map_of MOCK_CATEGORY_FALLBACKS ''Gadgets'' = None
   \<and> use_category_fallback_heuristic ''Gadgets'' =
       Inl (''Category '' @ [CHR 0x27] @ ''Gadgets'' @ [CHR 0x27] @ '' has no fallback value.'')"
  by code_simp

text \<open>
  C7, amended. For every entity whose canonical name is found neither in the internal table
  nor by the web lookup and whose category is none of the six keys, layer 3 of the pipeline
  answers with the generic average 5.0 (source "Category Fallback Heuristic", confidence
  Low), and the tool \<open>_use_category_fallback_heuristic\<close> returns an error object naming the
  category; neither raises.
\<close>

theorem unrecognized_category_generic_average:
  assumes "\<exists>e. lookup_internal_database canonical_name = Inl e"
    and "\<exists>e. search_web_for_footprint_data canonical_name = Inl e"
    and "category \<notin> fst ` set MOCK_CATEGORY_FALLBACKS"
  shows "layer3_knowledge_retrieval canonical_name category =
      \<lparr>l3_canonical_name = canonical_name, l3_category = category, l3_co2e_kg = 5,
       l3_source = ''Category Fallback Heuristic'', l3_confidence = ''Low''\<rparr>
    \<and> use_category_fallback_heuristic category =
      Inl (''Category '' @ [CHR 0x27] @ category @ [CHR 0x27] @ '' has no fallback value.'')"
proof -
  from assms(2) have w: "\<not> py_contains lays_phrase (py_lower canonical_name)"
    using web_not_found_iff [of canonical_name] by blast
  from assms(3) have m: "map_of MOCK_CATEGORY_FALLBACKS category = None"
    by (simp add: map_of_eq_None_iff)
  show ?thesis
    by (simp add: layer3_knowledge_retrieval_def w m fallback_values_same
        use_category_fallback_heuristic_def)
qed

theorem unrecognized_category_generic_average_witness:
  "layer3_knowledge_retrieval ''Mystery Widget'' ''Gadgets'' =
      \<lparr>l3_canonical_name = ''Mystery Widget'', l3_category = ''Gadgets'', l3_co2e_kg = 5,
       l3_source = ''Category Fallback Heuristic'', l3_confidence = ''Low''\<rparr>
   \<and> use_category_fallback_heuristic ''Gadgets'' =
      Inl (''Category '' @ [CHR 0x27] @ ''Gadgets'' @ [CHR 0x27] @ '' has no fallback value.'')"
proof -
  have 1: "\<exists>e. lookup_internal_database ''Mystery Widget'' = Inl e"
    and 2: "\<exists>e. search_web_for_footprint_data ''Mystery Widget'' = Inl e"
    using mystery_widget_not_found by blast+
  have 3: "''Gadgets'' \<notin> fst ` set MOCK_CATEGORY_FALLBACKS"
    by (simp add: MOCK_CATEGORY_FALLBACKS_def)
  from unrecognized_category_generic_average [OF 1 2 3] show ?thesis .
qed


subsection \<open>Footprint estimation\<close>



















subsection \<open>Entity standardization\<close>





end
